theory Spec2Isabelle
  imports Main
begin

section \<open>Python values\<close>

text \<open>
  The values that travel through the state dictionary and through the parsed JSON
  answers of the language-model collaborators. Numbers are integers only: the code
  never reads a floating-point field.
\<close>

datatype pyval =
    PNone
  | PBool bool
  | PInt int
  | PStr string
  | PList "pyval list"
  | PDict "(string \<times> pyval) list"

text \<open>Python truthiness, as tested by \<^verbatim>\<open>if x:\<close> and \<^verbatim>\<open>not x\<close>.\<close>

fun py_truthy :: "pyval \<Rightarrow> bool" where
  "py_truthy PNone = False"
| "py_truthy (PBool b) = b"
| "py_truthy (PInt i) = (i \<noteq> 0)"
| "py_truthy (PStr s) = (s \<noteq> [])"
| "py_truthy (PList xs) = (xs \<noteq> [])"
| "py_truthy (PDict kvs) = (kvs \<noteq> [])"

function str_nat :: "nat \<Rightarrow> string" where
  "str_nat n =
     (if n < 10 then [''0123456789'' ! n]
      else str_nat (n div 10) @ [''0123456789'' ! (n mod 10)])"
  by pat_completeness auto
termination
  by (relation "measure id") auto

definition str_int :: "int \<Rightarrow> string" where
  "str_int i = (if i < 0 then CHR ''-'' # str_nat (nat (- i)) else str_nat (nat i))"

text \<open>\<^verbatim>\<open>sep.join(xs)\<close>\<close>

fun str_join :: "string \<Rightarrow> string list \<Rightarrow> string" where
  "str_join sep [] = []"
| "str_join sep [x] = x"
| "str_join sep (x # y # ys) = x @ sep @ str_join sep (y # ys)"

text \<open>
  \<^verbatim>\<open>repr(v)\<close> and \<^verbatim>\<open>str(v)\<close>, the conversions an f-string applies. A string nested
  in a list or dict is shown between single quotes; the escape sequences Python adds
  there for quotes, backslashes and control characters are not reproduced. Only
  diagnostic texts go through these functions.
\<close>

fun py_repr :: "pyval \<Rightarrow> string" where
  "py_repr PNone = ''None''"
| "py_repr (PBool b) = (if b then ''True'' else ''False'')"
| "py_repr (PInt i) = str_int i"
| "py_repr (PStr s) = [CHR 0x27] @ s @ [CHR 0x27]"
| "py_repr (PList xs) = ''['' @ str_join '', '' (map py_repr xs) @ '']''"
| "py_repr (PDict kvs) =
     ''{'' @ str_join '', ''
        (map (\<lambda>kv. [CHR 0x27] @ fst kv @ [CHR 0x27] @ '': '' @ py_repr (snd kv)) kvs) @ ''}''"

fun py_str :: "pyval \<Rightarrow> string" where
  "py_str (PStr s) = s"
| "py_str v = py_repr v"

text \<open>\<^verbatim>\<open>d.get(k, default)\<close> on a dictionary given as an association list.\<close>

definition dict_get :: "(string \<times> pyval) list \<Rightarrow> string \<Rightarrow> pyval \<Rightarrow> pyval" where
  "dict_get d k dflt = (case map_of d k of None \<Rightarrow> dflt | Some v \<Rightarrow> v)"

text \<open>\<^verbatim>\<open>type(v).__name__\<close>, for the text of an AttributeError.\<close>

fun py_type_name :: "pyval \<Rightarrow> string" where
  "py_type_name PNone = ''NoneType''"
| "py_type_name (PBool b) = ''bool''"
| "py_type_name (PInt i) = ''int''"
| "py_type_name (PStr s) = ''str''"
| "py_type_name (PList xs) = ''list''"
| "py_type_name (PDict kvs) = ''dict''"

definition attribute_error :: "pyval \<Rightarrow> string \<Rightarrow> string" where
  "attribute_error v attr =
     [CHR 0x27] @ py_type_name v @ [CHR 0x27] @ '' object has no attribute ''
       @ [CHR 0x27] @ attr @ [CHR 0x27]"

text \<open>\<^verbatim>\<open>v[:100]\<close> succeeds on strings and lists and raises on every other value.\<close>

fun py_sliceable :: "pyval \<Rightarrow> bool" where
  "py_sliceable (PStr s) = True"
| "py_sliceable (PList xs) = True"
| "py_sliceable v = False"

text \<open>\<^verbatim>\<open>s.upper()\<close> on ASCII letters.\<close>

definition char_upper :: "char \<Rightarrow> char" where
  "char_upper c =
     (let n = (of_char c :: nat) in if 97 \<le> n \<and> n \<le> 122 then char_of (n - 32) else c)"

definition str_upper :: "string \<Rightarrow> string" where
  "str_upper s = map char_upper s"


section \<open>Agent state (core/agent\_state.py)\<close>

text \<open>
  A message of the conversation: its \<^verbatim>\<open>type\<close> attribute, whether it is an instance of
  the class \<^verbatim>\<open>HumanMessage\<close>, and its text content. A \<^verbatim>\<open>HumanMessage\<close> itself has the
  type \<^verbatim>\<open>"human"\<close>; an instance of a subclass may carry another type.
\<close>

record message =
  msg_type :: string
  is_human_message :: bool
  content :: string

text \<open>
  The state is a dictionary. The \<^verbatim>\<open>messages\<close> entry is kept apart because the graph
  library always holds a list of messages there; every other key is an entry of
  \<open>entries\<close>, absent until something writes it.
\<close>

record AgentState =
  messages :: "message list"
  entries :: "string \<rightharpoonup> pyval"

text \<open>
  The current query of the patient analysis: \<^verbatim>\<open>messages[-1].content\<close> when there is a
  last message and its type is \<^verbatim>\<open>"human"\<close>, the empty string otherwise.
\<close>

definition latest_human_text :: "message list \<Rightarrow> string" where
  "latest_human_text msgs =
     (if msgs \<noteq> [] \<and> msg_type (last msgs) = ''human'' then content (last msgs) else [])"

text \<open>
  The current query of the intent router: \<^verbatim>\<open>messages[-1].content\<close> when there is a last
  message and \<^verbatim>\<open>isinstance(messages[-1], HumanMessage)\<close> holds, the empty string
  otherwise.
\<close>

definition latest_human_message_text :: "message list \<Rightarrow> string" where
  "latest_human_message_text msgs =
     (if msgs \<noteq> [] \<and> is_human_message (last msgs) then content (last msgs) else [])"

text \<open>The history text: one line \<^verbatim>\<open>TYPE: content\<close> for each message, joined by newlines.\<close>

definition render_history :: "message list \<Rightarrow> string" where
  "render_history history =
     str_join [CHR 0x0A] (map (\<lambda>m. str_upper (msg_type m) @ '': '' @ content m) history)"

text \<open>\<^verbatim>\<open>state.get(k, default)\<close>; \<^verbatim>\<open>state.get(k)\<close> is the case \<open>default = PNone\<close>.\<close>

definition state_get :: "AgentState \<Rightarrow> string \<Rightarrow> pyval \<Rightarrow> pyval" where
  "state_get state k dflt = (case entries state k of None \<Rightarrow> dflt | Some v \<Rightarrow> v)"

text \<open>
  The keys that the class \<^verbatim>\<open>AgentState\<close> declares besides \<^verbatim>\<open>messages\<close>, in the order of
  core/agent\_state.py.
\<close>

definition AgentState_keys :: "string list" where
  "AgentState_keys =
     [''current_input'', ''final_output'', ''intermediate_steps'',
      ''user_role'', ''determined_intent'', ''supervisor_name'', ''tools_for_agent'',
      ''has_image'', ''image_path'', ''image_type'',
      ''needs_human_validation'', ''validation_result'', ''validation_comments'',
      ''retrieval_confidence'', ''rag_sources'', ''web_search_results'',
      ''patient_response_text'', ''request_scheduling'', ''next_supervisor_required'']"

text \<open>
  A node returns a dictionary of updates. The graph library writes the returned entries
  whose key the state schema declares over the state's entries of the same keys, and
  drops the others without an error: \<^verbatim>\<open>route_error\<close> and the misspelt
  \<^verbatim>\<open>request_scheuling\<close> are not declared, so a node that returns them does not change
  the state there. No node of this program returns \<^verbatim>\<open>messages\<close>.
\<close>

type_synonym update = "(string \<times> pyval) list"

definition apply_update :: "AgentState \<Rightarrow> update \<Rightarrow> AgentState" where
  "apply_update state u =
     state\<lparr>entries := entries state ++ map_of (filter (\<lambda>kv. fst kv \<in> set AgentState_keys) u)\<rparr>"


section \<open>Collaborators\<close>

text \<open>
  What one use of a language-model chain does: building it fails, invoking it raises
  (unreachable service, output that does not parse) with the exception's text, or it
  returns the parsed JSON value.
\<close>

datatype llm_outcome = InitFailed | InvokeRaised string | Returned pyval

text \<open>The two router prompts of config/settings.py, by name.\<close>

datatype prompt = PATIENT_INTENT_ROUTER_PROMPT | DOCTOR_INTENT_ROUTER_PROMPT

record collaborators =
  router_llm :: "prompt \<Rightarrow> string \<Rightarrow> llm_outcome"
  patient_llm :: "string \<Rightarrow> string \<Rightarrow> llm_outcome"

text \<open>Every attempt to use a collaborator is recorded with its arguments.\<close>

datatype event =
    ConsultRouter prompt string
  | ConsultPatient string string


section \<open>Main orchestrator nodes (agents/main\_orchestrator/nodes.py)\<close>

definition route_logic_by_role :: "AgentState \<Rightarrow> string" where
  "route_logic_by_role state =
     (let role = state_get state ''user_role'' (PStr ''unknown'')
      in if role = PStr ''patient'' then ''patient_intent_router''
         else if role = PStr ''doctor'' then ''doctor_intent_router''
         else ''handle_error_node'')"

definition determine_intent_llm ::
  "(prompt \<Rightarrow> string \<Rightarrow> llm_outcome) \<Rightarrow> AgentState \<Rightarrow> prompt \<Rightarrow> string list
     \<Rightarrow> update \<times> event list" where
  "determine_intent_llm llm state system_prompt valid_supervisors =
     (let current_query = latest_human_message_text (messages state);
          user_role = state_get state ''user_role'' PNone
      in if current_query = [] then
           ([(''supervisor_name'', PStr ''handle_error_node''),
             (''route_error'', PStr ''No query in state.'')], [])
         else
           (case llm system_prompt current_query of
              InitFailed \<Rightarrow>
                [(''supervisor_name'', PStr ''handle_error_node''),
                 (''route_error'', PStr ''Intent Router init failed.'')]
            | InvokeRaised e \<Rightarrow>
                [(''supervisor_name'', PStr ''handle_error_node''),
                 (''route_error'', PStr (''LLM intent routing failed: '' @ e))]
            | Returned llm_response \<Rightarrow>
                (case llm_response of
                   PDict kvs \<Rightarrow>
                     (let supervisor = dict_get kvs ''supervisor'' PNone
                      in if supervisor \<notin> set (map PStr valid_supervisors) then
                           [(''supervisor_name'', PStr ''handle_error_node''),
                            (''route_error'',
                             PStr (''Invalid routing target for role '' @ [CHR 0x27]
                                   @ py_str user_role @ [CHR 0x27] @ '': ''
                                   @ py_str supervisor))]
                         else [(''supervisor_name'', supervisor)])
                 | _ \<Rightarrow>
                     [(''supervisor_name'', PStr ''handle_error_node''),
                      (''route_error'',
                       PStr (''LLM intent routing failed: ''
                             @ attribute_error llm_response ''get''))]),
            [ConsultRouter system_prompt current_query]))"

definition patient_intent_router :: "collaborators \<Rightarrow> AgentState \<Rightarrow> update \<times> event list" where
  "patient_intent_router env state =
     determine_intent_llm (router_llm env) state PATIENT_INTENT_ROUTER_PROMPT
       [''supervisor_patient_general'', ''supervisor_scheduling'', ''handle_error_node'']"

definition doctor_intent_router :: "collaborators \<Rightarrow> AgentState \<Rightarrow> update \<times> event list" where
  "doctor_intent_router env state =
     determine_intent_llm (router_llm env) state DOCTOR_INTENT_ROUTER_PROMPT
       [''supervisor_doctor_general'', ''supervisor_summarization'', ''handle_error_node'']"

definition supervisor_doctor_general_placeholder :: "AgentState \<Rightarrow> update" where
  "supervisor_doctor_general_placeholder state =
     [(''final_output'', PStr ''Placeholder: Doctor general query would be handled here.'')]"

definition supervisor_scheduling_placeholder :: "AgentState \<Rightarrow> update" where
  "supervisor_scheduling_placeholder state =
     [(''final_output'', PStr ''Placeholder: Scheduling logic would start here.'')]"

definition supervisor_summarization_placeholder :: "AgentState \<Rightarrow> update" where
  "supervisor_summarization_placeholder state =
     [(''final_output'', PStr ''Placeholder: Summarization logic would start here.'')]"

definition supervisor_image_analysis_placeholder :: "AgentState \<Rightarrow> update" where
  "supervisor_image_analysis_placeholder state =
     [(''final_output'', PStr ''Placeholder: Image analysis logic would start here.'')]"

definition handle_error_node :: "AgentState \<Rightarrow> update" where
  "handle_error_node state =
     (let reason = state_get state ''route_error'' (PStr ''Unknown processing error'')
      in [(''final_output'', PStr (''Sorry, I encountered an error. Reason: '' @ py_str reason))])"

text \<open>
  The node assigns \<^verbatim>\<open>None\<close> to the key in the dictionary it was given and returns the
  same assignment as its update: the result is the pair of both.
\<close>

definition check_supervisor_handoff :: "AgentState \<Rightarrow> AgentState \<times> update" where
  "check_supervisor_handoff state =
     (let next_supervisor = state_get state ''next_supervisor_required'' PNone
      in if py_truthy next_supervisor then
           (state\<lparr>entries := (entries state)(''next_supervisor_required'' \<mapsto> PNone)\<rparr>,
            [(''next_supervisor_required'', PNone)])
         else (state, []))"


section \<open>Patient supervisor (agents/patient\_supervisor)\<close>

definition analyze_patient_query ::
  "(string \<Rightarrow> string \<Rightarrow> llm_outcome) \<Rightarrow> AgentState \<Rightarrow> update \<times> event list" where
  "analyze_patient_query llm state =
     (let history = butlast (messages state);
          current_query = latest_human_text (messages state)
      in if current_query = [] then
           ([(''patient_response_text'',
              PStr (''I'' @ [CHR 0x27] @ ''m sorry, I didnt quite catch that. could you please repeat your question?'')),
             (''request_scheduling'', PBool False)], [])
         else
           (let history_str = render_history history;
                failed =
                  [(''patient_response_text'',
                    PStr ''Sorry I encountered and error while thinking about your request''),
                   (''request_scheduling'', PBool False)]
            in (case llm history_str current_query of
                  InitFailed \<Rightarrow>
                    [(''patient_response_text'',
                      PStr (''Sorry, I'' @ [CHR 0x27] @ ''m having trouble understanding right now'')),
                     (''request_scheuling'', PBool False)]
                | InvokeRaised e \<Rightarrow> failed
                | Returned llm_response \<Rightarrow>
                    (case llm_response of
                       PDict kvs \<Rightarrow>
                         (let response_text =
                                dict_get kvs ''response_text''
                                  (PStr (''I'' @ [CHR 0x27] @ ''m not sure how to respond to that''));
                              request_scheduling =
                                dict_get kvs ''reuqest_scheduling'' (PBool False)
                          in if py_sliceable response_text then
                               [(''patient_response_text'', response_text),
                                (''request_scheduling'', request_scheduling)]
                             else failed)
                     | _ \<Rightarrow> failed),
                [ConsultPatient history_str current_query])))"

definition decide_next_step :: "AgentState \<Rightarrow> string" where
  "decide_next_step state =
     (if py_truthy (state_get state ''request_scheduling'' (PBool False))
      then ''prepare_for_scheduling''
      else ''finish_conversation'')"

definition prepare_for_scheduling :: "AgentState \<Rightarrow> update" where
  "prepare_for_scheduling state =
     (let response_text =
            state_get state ''patient_response_text'' (PStr ''Okay lets look scheduling'')
      in [(''final_output'', response_text),
          (''next_supervisor_required'', PStr ''supervisor_scheduling'')])"

definition finish_conversation :: "AgentState \<Rightarrow> update" where
  "finish_conversation state =
     (let response_text =
            state_get state ''patient_response_text'' (PStr ''Sorry Im not sure how to respond'')
      in [(''final_output'', response_text)])"

text \<open>
  The compiled sub-graph (agents/patient\_supervisor/graph.py): the entry node
  \<^verbatim>\<open>analyze_patient_query\<close>, the conditional edge \<^verbatim>\<open>decide_next_step\<close> evaluated on
  the state that holds the node's update, one of the two final nodes, then the end.
  \<open>patient_terminal\<close> is the part that starts at the conditional edge.
\<close>

definition patient_terminal :: "AgentState \<Rightarrow> AgentState" where
  "patient_terminal state =
     (case map_of [(''prepare_for_scheduling'', ''prepare_for_scheduling''),
                   (''finish_conversation'', ''finish_conversation'')]
             (decide_next_step state) of
        Some n \<Rightarrow>
          (if n = ''prepare_for_scheduling''
           then apply_update state (prepare_for_scheduling state)
           else apply_update state (finish_conversation state))
      | None \<Rightarrow> state)"

definition patient_supervisor_graph ::
  "collaborators \<Rightarrow> AgentState \<Rightarrow> AgentState \<times> event list" where
  "patient_supervisor_graph env state =
     (case analyze_patient_query (patient_llm env) state of
        (u, evs) \<Rightarrow> (patient_terminal (apply_update state u), evs))"


section \<open>Main orchestrator graph (agents/main\_orchestrator/graph.py)\<close>

definition route_after_handoff_check :: "AgentState \<Rightarrow> pyval" where
  "route_after_handoff_check state =
     (let next_supervisor = state_get state ''next_supervisor_required'' PNone
      in if py_truthy next_supervisor then next_supervisor else PStr ''output_stage'')"

text \<open>
  A conditional edge looks the routing function's result up in its mapping from
  results to target nodes. The model gives no target to a result that is not a key of
  the mapping (\<^verbatim>\<open>__default__\<close> is a key like the others); no theorem of this theory
  concerns such a result.
\<close>

fun path_lookup :: "(string \<times> string) list \<Rightarrow> pyval \<Rightarrow> string option" where
  "path_lookup pm (PStr r) = map_of pm r"
| "path_lookup pm v = None"

definition exec_node ::
  "collaborators \<Rightarrow> string \<Rightarrow> AgentState \<Rightarrow> (AgentState \<times> event list) option" where
  "exec_node env n state =
     (if n = ''patient_intent_router'' then
        (case patient_intent_router env state of (u, evs) \<Rightarrow> Some (apply_update state u, evs))
      else if n = ''doctor_intent_router'' then
        (case doctor_intent_router env state of (u, evs) \<Rightarrow> Some (apply_update state u, evs))
      else if n = ''supervisor_patient_general'' then
        Some (patient_supervisor_graph env state)
      else if n = ''supervisor_doctor_general'' then
        Some (apply_update state (supervisor_doctor_general_placeholder state), [])
      else if n = ''supervisor_scheduling'' then
        Some (apply_update state (supervisor_scheduling_placeholder state), [])
      else if n = ''supervisor_summarization'' then
        Some (apply_update state (supervisor_summarization_placeholder state), [])
      else if n = ''supervisor_image_analysis'' then
        Some (apply_update state (supervisor_image_analysis_placeholder state), [])
      else if n = ''handle_error_node'' then
        Some (apply_update state (handle_error_node state), [])
      else if n = ''check_supervisor_handoff'' then
        (case check_supervisor_handoff state of (state', u) \<Rightarrow> Some (apply_update state' u, []))
      else None)"

text \<open>
  The edges of \<^verbatim>\<open>build_main_orchestrator_graph\<close>: the node that runs after node \<open>n\<close>
  has left the state \<open>state\<close>. \<^verbatim>\<open>START\<close> and \<^verbatim>\<open>END\<close> are the library's names
  \<^verbatim>\<open>__start__\<close> and \<^verbatim>\<open>__end__\<close>.
\<close>

definition next_node :: "string \<Rightarrow> AgentState \<Rightarrow> string option" where
  "next_node n state =
     (if n = ''__start__'' then
        path_lookup
          [(''patient_intent_router'', ''patient_intent_router''),
           (''doctor_intent_router'', ''doctor_intent_router''),
           (''handle_error_node'', ''handle_error_node'')]
          (PStr (route_logic_by_role state))
      else if n = ''patient_intent_router'' then
        path_lookup
          [(''supervisor_patient_general'', ''supervisor_patient_general''),
           (''supervisor_scheduling'', ''supervisor_scheduling''),
           (''handle_error_node'', ''handle_error_node''),
           (''__default__'', ''handle_error_node'')]
          (state_get state ''supervisor_name'' PNone)
      else if n = ''doctor_intent_router'' then
        path_lookup
          [(''supervisor_doctor_general'', ''supervisor_doctor_general''),
           (''supervisor_summarization'', ''supervisor_summarization''),
           (''supervisor_image_analysis'', ''supervisor_image_analysis''),
           (''handle_error_node'', ''handle_error_node''),
           (''__default__'', ''handle_error_node'')]
          (state_get state ''supervisor_name'' PNone)
      else if n = ''supervisor_patient_general'' then Some ''check_supervisor_handoff''
      else if n = ''supervisor_doctor_general'' then Some ''check_supervisor_handoff''
      else if n = ''supervisor_scheduling'' then Some ''check_supervisor_handoff''
      else if n = ''supervisor_summarization'' then Some ''check_supervisor_handoff''
      else if n = ''supervisor_image_analysis'' then Some ''check_supervisor_handoff''
      else if n = ''check_supervisor_handoff'' then
        path_lookup
          [(''supervisor_scheduling'', ''supervisor_scheduling''),
           (''output_stage'', ''__end__''),
           (''__default__'', ''handle_error_node'')]
          (route_after_handoff_check state)
      else if n = ''handle_error_node'' then Some ''__end__''
      else None)"

text \<open>
  A run of the compiled graph: the final state, the collaborator events and the nodes
  executed, in order. The graph has a cycle, so the run is bounded by a number of
  steps, as the library bounds it by its recursion limit.
\<close>

datatype run_result =
    Finished AgentState "event list" "string list"
  | NoRoute string
  | RecursionLimit

fun run_from :: "nat \<Rightarrow> collaborators \<Rightarrow> string \<Rightarrow> AgentState \<Rightarrow> run_result" where
  "run_from 0 env n state = (if n = ''__end__'' then Finished state [] [] else RecursionLimit)"
| "run_from (Suc k) env n state =
     (if n = ''__end__'' then Finished state [] []
      else
        (case exec_node env n state of
           None \<Rightarrow> NoRoute n
         | Some (state', evs) \<Rightarrow>
             (case next_node n state' of
                None \<Rightarrow> NoRoute n
              | Some n' \<Rightarrow>
                  (case run_from k env n' state' of
                     Finished t evs' path \<Rightarrow> Finished t (evs @ evs') (n # path)
                   | r \<Rightarrow> r))))"

fun path_of :: "run_result \<Rightarrow> string list" where
  "path_of (Finished t evs path) = path"
| "path_of r = []"

fun events_of :: "run_result \<Rightarrow> event list" where
  "events_of (Finished t evs path) = evs"
| "events_of r = []"

fun final_state :: "run_result \<Rightarrow> AgentState option" where
  "final_state (Finished t evs path) = Some t"
| "final_state r = None"

text \<open>
  The entry of the final state under a key: none when the run did not finish or the
  final state has no such entry.
\<close>

fun final_entry :: "run_result \<Rightarrow> string \<Rightarrow> pyval option" where
  "final_entry (Finished t evs path) k = entries t k"
| "final_entry r k = None"

definition invoke :: "nat \<Rightarrow> collaborators \<Rightarrow> AgentState \<Rightarrow> run_result" where
  "invoke k env state =
     (case next_node ''__start__'' state of
        None \<Rightarrow> NoRoute ''__start__''
      | Some n \<Rightarrow> run_from k env n state)"


section \<open>Tool manager (core/mcp\_manager.py)\<close>

text \<open>A tool as the manager sees it: the manager reads nothing but its name.\<close>

record tool =
  tool_name :: string
  tool_description :: string

type_synonym server_config = "(string \<times> pyval) list"

type_synonym server_configs = "(string \<times> server_config) list"

text \<open>
  What bringing the multi-server client up does for a given set of active servers:
  constructing it, entering it or listing its tools raises, or it yields the tools.
\<close>

datatype client_outcome = StartRaises | Ready "tool list"

text \<open>The manager object; \<open>client\<close> holds the configurations the client was built from.\<close>

record MCPToolManager =
  raw_server_configs :: server_configs
  active_server_configs :: server_configs
  client :: "server_configs option"
  tools :: "tool list"
  running :: bool

text \<open>The constructor.\<close>

definition new_manager :: "server_configs \<Rightarrow> MCPToolManager" where
  "new_manager server_configs =
     \<lparr>raw_server_configs = server_configs, active_server_configs = [],
      client = None, tools = [], running = False\<rparr>"

definition server_active :: "string \<times> server_config \<Rightarrow> bool" where
  "server_active nc = (\<not> py_truthy (dict_get (snd nc) ''disabled'' (PBool False)))"

text \<open>
  \<^verbatim>\<open>start_client\<close>. Every exception raised while the client comes up is caught in the
  method, which then resets the three fields; the method itself returns nothing.
\<close>

definition start_client ::
  "(server_configs \<Rightarrow> client_outcome) \<Rightarrow> MCPToolManager \<Rightarrow> MCPToolManager" where
  "start_client connect m =
     (if running m then m
      else
        (let active = filter server_active (raw_server_configs m);
             m1 = m\<lparr>active_server_configs := active\<rparr>
         in if active = [] then m1\<lparr>client := None, tools := [], running := False\<rparr>
            else
              (case connect active of
                 StartRaises \<Rightarrow> m1\<lparr>client := None, tools := [], running := False\<rparr>
               | Ready ts \<Rightarrow> m1\<lparr>client := Some active, running := True, tools := ts\<rparr>)))"

definition stop_client :: "MCPToolManager \<Rightarrow> MCPToolManager" where
  "stop_client m =
     (if \<not> running m \<or> client m = None then m
      else m\<lparr>client := None, tools := [], running := False\<rparr>)"

definition is_running :: "MCPToolManager \<Rightarrow> bool" where
  "is_running m = running m"

text \<open>The warnings the two read-only methods log.\<close>

datatype warning = NotRunning | MissingTools "string set"

definition get_all_tools :: "MCPToolManager \<Rightarrow> tool list \<times> warning list" where
  "get_all_tools m = (if \<not> running m then ([], [NotRunning]) else (tools m, []))"

definition get_tools_for_agent ::
  "MCPToolManager \<Rightarrow> string list option \<Rightarrow> tool list \<times> warning list" where
  "get_tools_for_agent m required_tool_names =
     (case get_all_tools m of
        (all_tools, logged) \<Rightarrow>
          (case required_tool_names of
             None \<Rightarrow> (all_tools, logged)
           | Some names \<Rightarrow>
               if names = [] then (all_tools, logged)
               else
                 (let agent_tools = filter (\<lambda>t. tool_name t \<in> set names) all_tools
                  in (agent_tools,
                      logged @
                      (if length agent_tools \<noteq> length names
                       then [MissingTools (set names - set (map tool_name agent_tools))]
                       else [])))))"

text \<open>The life of a manager: any sequence of start and stop calls.\<close>

datatype lifecycle_call = Start "server_configs \<Rightarrow> client_outcome" | Stop

fun lifecycle :: "MCPToolManager \<Rightarrow> lifecycle_call list \<Rightarrow> MCPToolManager" where
  "lifecycle m [] = m"
| "lifecycle m (Start connect # cs) = lifecycle (start_client connect m) cs"
| "lifecycle m (Stop # cs) = lifecycle (stop_client m) cs"


section \<open>Updates of the state\<close>

lemma map_of_filter_keys:
  "map_of (filter (\<lambda>kv. fst kv \<in> K) u) k = (if k \<in> K then map_of u k else None)"
  by (induction u) auto

lemma entries_apply_update:
  "entries (apply_update s u) k =
     (if k \<in> set AgentState_keys
      then (case map_of u k of None \<Rightarrow> entries s k | Some v \<Rightarrow> Some v)
      else entries s k)"
  by (simp add: apply_update_def map_add_def map_of_filter_keys split: option.splits)

lemma state_get_apply_update:
  "state_get (apply_update s u) k d =
     (if k \<in> set AgentState_keys
      then (case map_of u k of None \<Rightarrow> state_get s k d | Some v \<Rightarrow> v)
      else state_get s k d)"
  by (simp add: state_get_def entries_apply_update split: option.splits)

lemma messages_apply_update: "messages (apply_update s u) = messages s"
  by (simp add: apply_update_def)

lemma declared_keys:
  "''final_output'' \<in> set AgentState_keys"
  "''user_role'' \<in> set AgentState_keys"
  "''supervisor_name'' \<in> set AgentState_keys"
  "''patient_response_text'' \<in> set AgentState_keys"
  "''request_scheduling'' \<in> set AgentState_keys"
  "''next_supervisor_required'' \<in> set AgentState_keys"
  by (simp_all add: AgentState_keys_def)

lemma undeclared_keys:
  "''route_error'' \<notin> set AgentState_keys"
  "''request_scheuling'' \<notin> set AgentState_keys"
  by (simp_all add: AgentState_keys_def)


section \<open>Steps of the main graph\<close>

lemma run_from_end: "run_from k env ''__end__'' s = Finished s [] []"
  by (cases k) simp_all

lemma exec_check_handoff:
  assumes "py_truthy (state_get s ''next_supervisor_required'' PNone)"
  shows "exec_node env ''check_supervisor_handoff'' s
           = Some (apply_update s [(''next_supervisor_required'', PNone)], [])"
  using assms by (simp add: exec_node_def check_supervisor_handoff_def apply_update_def AgentState_keys_def)

lemma exec_check_unset:
  assumes "\<not> py_truthy (state_get s ''next_supervisor_required'' PNone)"
  shows "exec_node env ''check_supervisor_handoff'' s = Some (s, [])"
  using assms by (simp add: exec_node_def check_supervisor_handoff_def apply_update_def)

lemma cleared_signal:
  "state_get (apply_update s [(''next_supervisor_required'', PNone)])
     ''next_supervisor_required'' PNone = PNone"
  by (simp add: state_get_def apply_update_def AgentState_keys_def)

lemma next_after_cleared:
  assumes "state_get s ''next_supervisor_required'' PNone = PNone"
  shows "next_node ''check_supervisor_handoff'' s = Some ''__end__''"
  using assms by (simp add: next_node_def route_after_handoff_check_def)

lemma run_check_handoff:
  assumes "py_truthy (state_get s ''next_supervisor_required'' PNone)"
  shows "run_from (Suc k) env ''check_supervisor_handoff'' s
           = Finished (apply_update s [(''next_supervisor_required'', PNone)]) []
               [''check_supervisor_handoff'']"
  by (simp add: exec_check_handoff[OF assms] next_after_cleared[OF cleared_signal] run_from_end)

lemma start_unknown_role:
  assumes "entries s ''user_role'' \<noteq> Some (PStr ''patient'')"
      and "entries s ''user_role'' \<noteq> Some (PStr ''doctor'')"
  shows "next_node ''__start__'' s = Some ''handle_error_node''"
  using assms
  by (auto simp add: next_node_def route_logic_by_role_def state_get_def split: option.splits)

lemma run_handle_error:
  "run_from (Suc k) env ''handle_error_node'' s
     = Finished (apply_update s (handle_error_node s)) [] [''handle_error_node'']"
  by (simp add: exec_node_def next_node_def run_from_end)

lemma handle_error_output:
  "entries (apply_update s (handle_error_node s)) ''final_output''
     = Some (PStr (''Sorry, I encountered an error. Reason: ''
                    @ py_str (state_get s ''route_error'' (PStr ''Unknown processing error''))))"
  by (simp add: apply_update_def AgentState_keys_def handle_error_node_def)


lemma run_from_step:
  assumes "n \<noteq> ''__end__''" and "exec_node env n s = Some (s', evs)"
      and "next_node n s' = Some n'" and "run_from k env n' s' = Finished t evs' p"
  shows "run_from (Suc k) env n s = Finished t (evs @ evs') (n # p)"
  using assms by simp

lemma run_check_any:
  "\<exists>t. run_from (Suc k) env ''check_supervisor_handoff'' s
          = Finished t [] [''check_supervisor_handoff'']"
proof (cases "py_truthy (state_get s ''next_supervisor_required'' PNone)")
  case True
  from run_check_handoff[OF this] show ?thesis by blast
next
  case False
  then have e: "exec_node env ''check_supervisor_handoff'' s = Some (s, [])"
    by (simp add: exec_node_def check_supervisor_handoff_def apply_update_def AgentState_keys_def)
  from False have "next_node ''check_supervisor_handoff'' s = Some ''__end__''"
    by (simp add: next_node_def route_after_handoff_check_def)
  with e show ?thesis by (simp add: run_from_end)
qed

lemma run_doctor_general:
  "\<exists>t. run_from (Suc (Suc k)) env ''supervisor_doctor_general'' s
          = Finished t [] [''supervisor_doctor_general'', ''check_supervisor_handoff'']"
proof -
  let ?s' = "apply_update s (supervisor_doctor_general_placeholder s)"
  obtain t where t: "run_from (Suc k) env ''check_supervisor_handoff'' ?s'
          = Finished t [] [''check_supervisor_handoff'']"
    using run_check_any by blast
  have "run_from (Suc (Suc k)) env ''supervisor_doctor_general'' s
          = Finished t ([] @ []) [''supervisor_doctor_general'', ''check_supervisor_handoff'']"
    by (rule run_from_step[OF _ _ _ t]) (simp_all add: exec_node_def next_node_def)
  then show ?thesis by simp
qed

lemma run_summarization:
  "\<exists>t. run_from (Suc (Suc k)) env ''supervisor_summarization'' s
          = Finished t [] [''supervisor_summarization'', ''check_supervisor_handoff'']"
proof -
  let ?s' = "apply_update s (supervisor_summarization_placeholder s)"
  obtain t where t: "run_from (Suc k) env ''check_supervisor_handoff'' ?s'
          = Finished t [] [''check_supervisor_handoff'']"
    using run_check_any by blast
  have "run_from (Suc (Suc k)) env ''supervisor_summarization'' s
          = Finished t ([] @ []) [''supervisor_summarization'', ''check_supervisor_handoff'']"
    by (rule run_from_step[OF _ _ _ t]) (simp_all add: exec_node_def next_node_def)
  then show ?thesis by simp
qed

lemma start_doctor:
  assumes "entries s ''user_role'' = Some (PStr ''doctor'')"
  shows "next_node ''__start__'' s = Some ''doctor_intent_router''"
  using assms by (simp add: next_node_def route_logic_by_role_def state_get_def)


section \<open>Handoff between supervisors\<close>

text \<open>
  C1. Claimed: when a supervisor node has set \<^verbatim>\<open>next_supervisor_required\<close> to
  \<^verbatim>\<open>"supervisor_scheduling"\<close>, the handoff check clears the signal and the scheduling
  supervisor runs next. The code does the first half only. Whatever the state \<open>s\<close>
  in which \<^verbatim>\<open>prepare_for_scheduling\<close> sets the signal, the run that continues at
  \<^verbatim>\<open>check_supervisor_handoff\<close> executes that one node and ends: the node's update
  has already replaced the signal by \<^verbatim>\<open>None\<close> when \<^verbatim>\<open>route_after_handoff_check\<close>
  reads it, so the route is \<^verbatim>\<open>output_stage\<close> and \<^verbatim>\<open>supervisor_scheduling\<close> is never
  executed.
\<close>

theorem handoff_to_scheduling_is_dropped:
  "entries (apply_update s (prepare_for_scheduling s)) ''next_supervisor_required''
     = Some (PStr ''supervisor_scheduling'')
   \<and> run_from (Suc k) env ''check_supervisor_handoff'' (apply_update s (prepare_for_scheduling s))
     = Finished
         (apply_update (apply_update s (prepare_for_scheduling s))
            [(''next_supervisor_required'', PNone)])
         [] [''check_supervisor_handoff'']"
proof -
  let ?s1 = "apply_update s (prepare_for_scheduling s)"
  have e: "entries ?s1 ''next_supervisor_required'' = Some (PStr ''supervisor_scheduling'')"
    by (simp add: apply_update_def AgentState_keys_def prepare_for_scheduling_def)
  then have "py_truthy (state_get ?s1 ''next_supervisor_required'' PNone)"
    by (simp add: state_get_def)
  from e run_check_handoff[OF this] show ?thesis by blast
qed

text \<open>
  C5, as the code has it. The handoff check tests the signal the way Python's \<^verbatim>\<open>if\<close>
  does. When the signal it reads is true under that test (a non-empty supervisor name),
  its update writes \<^verbatim>\<open>None\<close> over it in that same step, and the run from the check
  ends without entering a supervisor; executing the check again on the state it leaves
  finds nothing: no update, the route \<^verbatim>\<open>output_stage\<close>, and again a run that ends
  without any supervisor being entered. When the signal is absent, \<^verbatim>\<open>None\<close>, or set
  to a value that the test takes as false (the empty string), the check changes nothing
  and the run ends as well.
\<close>

theorem handoff_signal_consumed_once:
  "(py_truthy (state_get s ''next_supervisor_required'' PNone) \<longrightarrow>
      (let s' = apply_update s [(''next_supervisor_required'', PNone)] in
           snd (check_supervisor_handoff s) = [(''next_supervisor_required'', PNone)]
         \<and> exec_node env ''check_supervisor_handoff'' s = Some (s', [])
         \<and> run_from (Suc k) env ''check_supervisor_handoff'' s
             = Finished s' [] [''check_supervisor_handoff'']
         \<and> entries s' ''next_supervisor_required'' = Some PNone
         \<and> check_supervisor_handoff s' = (s', [])
         \<and> route_after_handoff_check s' = PStr ''output_stage''
         \<and> run_from (Suc k) env ''check_supervisor_handoff'' s'
             = Finished s' [] [''check_supervisor_handoff'']))
   \<and> (\<not> py_truthy (state_get s ''next_supervisor_required'' PNone) \<longrightarrow>
           check_supervisor_handoff s = (s, [])
         \<and> exec_node env ''check_supervisor_handoff'' s = Some (s, [])
         \<and> run_from (Suc k) env ''check_supervisor_handoff'' s
             = Finished s [] [''check_supervisor_handoff''])"
proof (intro conjI impI)
  assume t: "py_truthy (state_get s ''next_supervisor_required'' PNone)"
  let ?s' = "apply_update s [(''next_supervisor_required'', PNone)]"
  have 1: "snd (check_supervisor_handoff s) = [(''next_supervisor_required'', PNone)]"
    using t by (simp add: check_supervisor_handoff_def)
  have 3: "entries ?s' ''next_supervisor_required'' = Some PNone"
    by (simp add: entries_apply_update declared_keys)
  have 4: "check_supervisor_handoff ?s' = (?s', [])"
    by (simp add: check_supervisor_handoff_def cleared_signal)
  have 5: "route_after_handoff_check ?s' = PStr ''output_stage''"
    by (simp add: route_after_handoff_check_def cleared_signal)
  have "exec_node env ''check_supervisor_handoff'' ?s' = Some (?s', [])"
    by (simp add: exec_node_def 4) (simp add: apply_update_def)
  then have 6: "run_from (Suc k) env ''check_supervisor_handoff'' ?s'
                  = Finished ?s' [] [''check_supervisor_handoff'']"
    by (simp add: next_after_cleared[OF cleared_signal] run_from_end)
  from 1 exec_check_handoff[OF t] run_check_handoff[OF t] 3 4 5 6
  show "let s' = apply_update s [(''next_supervisor_required'', PNone)] in
           snd (check_supervisor_handoff s) = [(''next_supervisor_required'', PNone)]
         \<and> exec_node env ''check_supervisor_handoff'' s = Some (s', [])
         \<and> run_from (Suc k) env ''check_supervisor_handoff'' s
             = Finished s' [] [''check_supervisor_handoff'']
         \<and> entries s' ''next_supervisor_required'' = Some PNone
         \<and> check_supervisor_handoff s' = (s', [])
         \<and> route_after_handoff_check s' = PStr ''output_stage''
         \<and> run_from (Suc k) env ''check_supervisor_handoff'' s'
             = Finished s' [] [''check_supervisor_handoff'']"
    unfolding Let_def by blast
next
  assume f: "\<not> py_truthy (state_get s ''next_supervisor_required'' PNone)"
  then show "check_supervisor_handoff s = (s, [])"
    by (simp add: check_supervisor_handoff_def)
  from f show e: "exec_node env ''check_supervisor_handoff'' s = Some (s, [])"
    by (simp add: exec_check_unset)
  from f have "next_node ''check_supervisor_handoff'' s = Some ''__end__''"
    by (simp add: next_node_def route_after_handoff_check_def)
  with e show "run_from (Suc k) env ''check_supervisor_handoff'' s
                 = Finished s [] [''check_supervisor_handoff'']"
    by (simp add: run_from_end)
qed

theorem handoff_signal_consumed_once_witness:
  "exec_node \<lparr>router_llm = (\<lambda>p q. InitFailed), patient_llm = (\<lambda>h q. InitFailed)\<rparr>
     ''check_supervisor_handoff''
     \<lparr>messages = [], entries = [''next_supervisor_required'' \<mapsto> PStr ''supervisor_scheduling'']\<rparr>
   = Some (\<lparr>messages = [], entries = [''next_supervisor_required'' \<mapsto> PNone]\<rparr>, [])
   \<and> run_from (Suc 0) \<lparr>router_llm = (\<lambda>p q. InitFailed), patient_llm = (\<lambda>h q. InitFailed)\<rparr>
       ''check_supervisor_handoff''
       \<lparr>messages = [], entries = [''next_supervisor_required'' \<mapsto> PNone]\<rparr>
     = Finished \<lparr>messages = [], entries = [''next_supervisor_required'' \<mapsto> PNone]\<rparr> []
         [''check_supervisor_handoff'']"
  using handoff_signal_consumed_once
    [of "\<lparr>messages = [], entries = [''next_supervisor_required'' \<mapsto> PStr ''supervisor_scheduling'']\<rparr>"
        "\<lparr>router_llm = (\<lambda>p q. InitFailed), patient_llm = (\<lambda>h q. InitFailed)\<rparr>" 0]
  by (simp add: state_get_def apply_update_def AgentState_keys_def Let_def del: run_from.simps)

text \<open>
  The claim as written, for every set signal, fails for a signal set to the empty
  string: the check leaves it in the state and returns no update.
\<close>

theorem handoff_empty_signal_counterexample:
  "check_supervisor_handoff
     \<lparr>messages = [], entries = [''next_supervisor_required'' \<mapsto> PStr []]\<rparr>
   = (\<lparr>messages = [], entries = [''next_supervisor_required'' \<mapsto> PStr []]\<rparr>, [])
   \<and> exec_node \<lparr>router_llm = (\<lambda>p q. InitFailed), patient_llm = (\<lambda>h q. InitFailed)\<rparr>
       ''check_supervisor_handoff''
       \<lparr>messages = [], entries = [''next_supervisor_required'' \<mapsto> PStr []]\<rparr>
     = Some (\<lparr>messages = [], entries = [''next_supervisor_required'' \<mapsto> PStr []]\<rparr>, [])"
  by (simp add: check_supervisor_handoff_def exec_node_def state_get_def apply_update_def)


section \<open>Unknown roles\<close>

text \<open>
  C8. A run whose \<^verbatim>\<open>user_role\<close> is neither \<^verbatim>\<open>"patient"\<close> nor \<^verbatim>\<open>"doctor"\<close> (the key may
  be absent, or hold \<^verbatim>\<open>None\<close>) goes from the start straight to \<^verbatim>\<open>handle_error_node\<close>
  and ends there: that node is the only one executed, no collaborator is consulted,
  and the final output is the apology followed by the reason, hence not empty.
\<close>

theorem unknown_role_ends_at_error_node:
  assumes "entries s ''user_role'' \<noteq> Some (PStr ''patient'')"
      and "entries s ''user_role'' \<noteq> Some (PStr ''doctor'')"
  shows "invoke (Suc k) env s
           = Finished (apply_update s (handle_error_node s)) [] [''handle_error_node'']
       \<and> entries (apply_update s (handle_error_node s)) ''final_output''
           = Some (PStr (''Sorry, I encountered an error. Reason: ''
                    @ py_str (state_get s ''route_error'' (PStr ''Unknown processing error''))))"
  by (simp add: invoke_def start_unknown_role[OF assms] run_handle_error handle_error_output
        del: run_from.simps)

theorem unknown_role_ends_at_error_node_witness:
  "invoke (Suc 0) \<lparr>router_llm = (\<lambda>p q. InitFailed), patient_llm = (\<lambda>h q. InitFailed)\<rparr>
      \<lparr>messages = [\<lparr>msg_type = ''human'', is_human_message = True, content = ''hello''\<rparr>],
       entries = [''current_input'' \<mapsto> PStr ''hello'', ''user_role'' \<mapsto> PStr ''nurse'']\<rparr>
     = Finished
        \<lparr>messages = [\<lparr>msg_type = ''human'', is_human_message = True, content = ''hello''\<rparr>],
         entries = [''current_input'' \<mapsto> PStr ''hello'', ''user_role'' \<mapsto> PStr ''nurse'',
            ''final_output'' \<mapsto>
               PStr ''Sorry, I encountered an error. Reason: Unknown processing error'']\<rparr>
        [] [''handle_error_node'']"
  using unknown_role_ends_at_error_node
    [of "\<lparr>messages = [\<lparr>msg_type = ''human'', is_human_message = True, content = ''hello''\<rparr>],
          entries = [''current_input'' \<mapsto> PStr ''hello'', ''user_role'' \<mapsto> PStr ''nurse'']\<rparr>" 0
        "\<lparr>router_llm = (\<lambda>p q. InitFailed), patient_llm = (\<lambda>h q. InitFailed)\<rparr>"]
  by (simp add: apply_update_def AgentState_keys_def handle_error_node_def state_get_def)


section \<open>Intent routing\<close>

lemma determine_intent_failure:
  assumes "llm p (latest_human_message_text (messages s)) = out"
      and "out = InitFailed \<or> (\<exists>e. out = InvokeRaised e)
           \<or> (\<exists>v. out = Returned v \<and> (\<forall>kvs. v \<noteq> PDict kvs))
           \<or> (\<exists>kvs. out = Returned (PDict kvs)
                 \<and> dict_get kvs ''supervisor'' PNone \<notin> set (map PStr valid))"
  shows "\<exists>d. fst (determine_intent_llm llm s p valid)
            = [(''supervisor_name'', PStr ''handle_error_node''), (''route_error'', PStr d)]"
proof (cases "latest_human_message_text (messages s) = []")
  case True
  then show ?thesis by (simp add: determine_intent_llm_def)
next
  case False
  from assms(2) show ?thesis
  proof (elim disjE exE conjE)
    assume "out = InitFailed"
    with False assms(1) show ?thesis by (simp add: determine_intent_llm_def)
  next
    fix e assume "out = InvokeRaised e"
    with False assms(1) show ?thesis by (simp add: determine_intent_llm_def)
  next
    fix v assume "out = Returned v" "\<forall>kvs. v \<noteq> PDict kvs"
    with False assms(1) show ?thesis
      by (cases v) (simp_all add: determine_intent_llm_def)
  next
    fix kvs assume "out = Returned (PDict kvs)"
      "dict_get kvs ''supervisor'' PNone \<notin> set (map PStr valid)"
    with False assms(1) show ?thesis by (simp add: determine_intent_llm_def Let_def)
  qed
qed

lemma next_after_router_error:
  assumes "u = [(''supervisor_name'', PStr ''handle_error_node''), (''route_error'', PStr d)]"
  shows "next_node ''patient_intent_router'' (apply_update s u) = Some ''handle_error_node''"
    and "next_node ''doctor_intent_router'' (apply_update s u) = Some ''handle_error_node''"
  using assms by (simp_all add: next_node_def apply_update_def AgentState_keys_def state_get_def)

lemma doctor_router_answer:
  assumes "latest_human_message_text (messages s) \<noteq> []"
      and "router_llm env DOCTOR_INTENT_ROUTER_PROMPT (latest_human_message_text (messages s))
             = Returned (PDict kvs)"
      and "c = dict_get kvs ''supervisor'' PNone"
  shows "doctor_intent_router env s =
           (if c = PStr ''supervisor_doctor_general'' \<or> c = PStr ''supervisor_summarization''
               \<or> c = PStr ''handle_error_node''
            then [(''supervisor_name'', c)]
            else [(''supervisor_name'', PStr ''handle_error_node''),
                  (''route_error'',
                   PStr (''Invalid routing target for role '' @ [CHR 0x27]
                         @ py_str (state_get s ''user_role'' PNone) @ [CHR 0x27] @ '': ''
                         @ py_str c))],
            [ConsultRouter DOCTOR_INTENT_ROUTER_PROMPT (latest_human_message_text (messages s))])"
  using assms by (auto simp add: doctor_intent_router_def determine_intent_llm_def Let_def)

text \<open>
  C6. Claimed: in every failure mode of the classifier gateway the router step makes a
  fallback decision that routes the run to the error terminal, setting
  \<^verbatim>\<open>supervisor_name\<close> to the error node and attaching a \<^verbatim>\<open>route_error\<close> diagnostic,
  and the raw failure is never propagated. The code does all of this but the
  attachment. Take any state, prompt and caller-supplied list of allowed supervisors,
  and let the gateway fail: the chain cannot be built, invoking it raises (service
  unreachable, output that does not parse), the parsed answer is not a JSON object, or
  its \<^verbatim>\<open>supervisor\<close> is missing or outside the allowed list. Then
  \<^verbatim>\<open>_determine_intent_llm\<close> returns, as an ordinary value, the update with
  \<^verbatim>\<open>supervisor_name = handle_error_node\<close> and a \<^verbatim>\<open>route_error\<close> text, and the
  conditional edge of either router leads to \<^verbatim>\<open>handle_error_node\<close>, where the run
  ends. But \<^verbatim>\<open>AgentState\<close> does not declare \<^verbatim>\<open>route_error\<close>, so the diagnostic is
  not written to the state: the state's \<^verbatim>\<open>route_error\<close> is what it was before the
  router ran, and \<^verbatim>\<open>handle_error_node\<close>, which reads the reason from there, reports
  that earlier value, \<^verbatim>\<open>Unknown processing error\<close> when there is none.
\<close>

theorem gateway_failure_routes_to_error_node:
  assumes "llm p (latest_human_message_text (messages s)) = out"
      and "out = InitFailed \<or> (\<exists>e. out = InvokeRaised e)
           \<or> (\<exists>v. out = Returned v \<and> (\<forall>kvs. v \<noteq> PDict kvs))
           \<or> (\<exists>kvs. out = Returned (PDict kvs)
                 \<and> dict_get kvs ''supervisor'' PNone \<notin> set (map PStr valid))"
      and "u = fst (determine_intent_llm llm s p valid)"
  shows "(\<exists>d. u = [(''supervisor_name'', PStr ''handle_error_node''), (''route_error'', PStr d)])
       \<and> entries (apply_update s u) ''supervisor_name'' = Some (PStr ''handle_error_node'')
       \<and> next_node ''patient_intent_router'' (apply_update s u) = Some ''handle_error_node''
       \<and> next_node ''doctor_intent_router'' (apply_update s u) = Some ''handle_error_node''
       \<and> entries (apply_update s u) ''route_error'' = entries s ''route_error''
       \<and> run_from (Suc k) env ''handle_error_node'' (apply_update s u)
           = Finished
               (apply_update (apply_update s u)
                  [(''final_output'',
                    PStr (''Sorry, I encountered an error. Reason: ''
                          @ py_str (state_get s ''route_error''
                                      (PStr ''Unknown processing error''))))])
               [] [''handle_error_node'']"
proof -
  from determine_intent_failure[of llm p s out valid, OF assms(1,2)] assms(3)
  obtain d where u: "u = [(''supervisor_name'', PStr ''handle_error_node''), (''route_error'', PStr d)]"
    by auto
  have n: "entries (apply_update s u) ''supervisor_name'' = Some (PStr ''handle_error_node'')"
    by (simp add: u entries_apply_update declared_keys)
  have e: "entries (apply_update s u) ''route_error'' = entries s ''route_error''"
    by (simp add: entries_apply_update undeclared_keys)
  have "handle_error_node (apply_update s u)
          = [(''final_output'',
              PStr (''Sorry, I encountered an error. Reason: ''
                    @ py_str (state_get s ''route_error'' (PStr ''Unknown processing error''))))]"
    by (simp add: handle_error_node_def state_get_apply_update undeclared_keys)
  then have r: "run_from (Suc k) env ''handle_error_node'' (apply_update s u)
           = Finished
               (apply_update (apply_update s u)
                  [(''final_output'',
                    PStr (''Sorry, I encountered an error. Reason: ''
                          @ py_str (state_get s ''route_error''
                                      (PStr ''Unknown processing error''))))])
               [] [''handle_error_node'']"
    unfolding run_handle_error by simp
  from u n next_after_router_error[OF u] e r show ?thesis by blast
qed

theorem gateway_failure_routes_to_error_node_witness:
  "fst (determine_intent_llm
          (\<lambda>p q. Returned (PDict [(''supervisor'', PStr ''supervisor_db_agent'')]))
          \<lparr>messages = [\<lparr>msg_type = ''human'', is_human_message = True,
                         content = ''show me the labs''\<rparr>],
           entries = [''user_role'' \<mapsto> PStr ''doctor'']\<rparr>
          DOCTOR_INTENT_ROUTER_PROMPT
          [''supervisor_doctor_general'', ''supervisor_summarization'', ''handle_error_node''])
     = [(''supervisor_name'', PStr ''handle_error_node''),
        (''route_error'',
         PStr (''Invalid routing target for role '' @ [CHR 0x27] @ ''doctor'' @ [CHR 0x27]
               @ '': supervisor_db_agent''))]
   \<and> path_of (invoke (Suc (Suc 0))
        \<lparr>router_llm = (\<lambda>p q. Returned (PDict [(''supervisor'', PStr ''supervisor_db_agent'')])),
         patient_llm = (\<lambda>h q. InitFailed)\<rparr>
        \<lparr>messages = [\<lparr>msg_type = ''human'', is_human_message = True,
                       content = ''show me the labs''\<rparr>],
         entries = [''user_role'' \<mapsto> PStr ''doctor'']\<rparr>)
     = [''doctor_intent_router'', ''handle_error_node'']
   \<and> final_entry (invoke (Suc (Suc 0))
        \<lparr>router_llm = (\<lambda>p q. Returned (PDict [(''supervisor'', PStr ''supervisor_db_agent'')])),
         patient_llm = (\<lambda>h q. InitFailed)\<rparr>
        \<lparr>messages = [\<lparr>msg_type = ''human'', is_human_message = True,
                       content = ''show me the labs''\<rparr>],
         entries = [''user_role'' \<mapsto> PStr ''doctor'']\<rparr>) ''route_error''
     = None
   \<and> final_entry (invoke (Suc (Suc 0))
        \<lparr>router_llm = (\<lambda>p q. Returned (PDict [(''supervisor'', PStr ''supervisor_db_agent'')])),
         patient_llm = (\<lambda>h q. InitFailed)\<rparr>
        \<lparr>messages = [\<lparr>msg_type = ''human'', is_human_message = True,
                       content = ''show me the labs''\<rparr>],
         entries = [''user_role'' \<mapsto> PStr ''doctor'']\<rparr>) ''final_output''
     = Some (PStr ''Sorry, I encountered an error. Reason: Unknown processing error'')"
  using gateway_failure_routes_to_error_node
    [of "\<lambda>p q. Returned (PDict [(''supervisor'', PStr ''supervisor_db_agent'')])"
        DOCTOR_INTENT_ROUTER_PROMPT
        "\<lparr>messages = [\<lparr>msg_type = ''human'', is_human_message = True,
                        content = ''show me the labs''\<rparr>],
          entries = [''user_role'' \<mapsto> PStr ''doctor'']\<rparr>"
        "Returned (PDict [(''supervisor'', PStr ''supervisor_db_agent'')])"
        "[''supervisor_doctor_general'', ''supervisor_summarization'', ''handle_error_node'']"
        "fst (determine_intent_llm
          (\<lambda>p q. Returned (PDict [(''supervisor'', PStr ''supervisor_db_agent'')]))
          \<lparr>messages = [\<lparr>msg_type = ''human'', is_human_message = True,
                         content = ''show me the labs''\<rparr>],
           entries = [''user_role'' \<mapsto> PStr ''doctor'']\<rparr>
          DOCTOR_INTENT_ROUTER_PROMPT
          [''supervisor_doctor_general'', ''supervisor_summarization'', ''handle_error_node''])"
        0 "\<lparr>router_llm = (\<lambda>p q. InitFailed), patient_llm = (\<lambda>h q. InitFailed)\<rparr>"]
  by (simp add: invoke_def next_node_def route_logic_by_role_def state_get_def exec_node_def
        doctor_intent_router_def determine_intent_llm_def latest_human_message_text_def
        dict_get_def apply_update_def AgentState_keys_def handle_error_node_def)

text \<open>
  C2, as the code has it. For a doctor-role run whose classifier answers with a JSON
  object, the node executed after \<^verbatim>\<open>doctor_intent_router\<close> is the matching supervisor
  when the answer's \<^verbatim>\<open>supervisor\<close> is \<^verbatim>\<open>supervisor_doctor_general\<close> or
  \<^verbatim>\<open>supervisor_summarization\<close>, and \<^verbatim>\<open>handle_error_node\<close> for every other value:
  \<^verbatim>\<open>supervisor_image_analysis\<close> is not in the router's list of valid supervisors, so
  it is among the values sent to the error node.
\<close>

theorem doctor_router_dispatch:
  assumes "entries s ''user_role'' = Some (PStr ''doctor'')"
      and "latest_human_message_text (messages s) \<noteq> []"
      and "router_llm env DOCTOR_INTENT_ROUTER_PROMPT (latest_human_message_text (messages s))
             = Returned (PDict kvs)"
      and "c = dict_get kvs ''supervisor'' PNone"
  shows "take 2 (path_of (invoke (Suc (Suc (Suc k))) env s))
           = [''doctor_intent_router'',
              if c = PStr ''supervisor_doctor_general'' then ''supervisor_doctor_general''
              else if c = PStr ''supervisor_summarization'' then ''supervisor_summarization''
              else ''handle_error_node'']"
proof -
  let ?q = "latest_human_message_text (messages s)"
  let ?ev = "[ConsultRouter DOCTOR_INTENT_ROUTER_PROMPT ?q]"
  obtain u where u: "doctor_intent_router env s = (u, ?ev)"
    using doctor_router_answer[OF assms(2-4)] by simp
  then have ex: "exec_node env ''doctor_intent_router'' s = Some (apply_update s u, ?ev)"
    by (simp add: exec_node_def)
  have inv: "invoke (Suc (Suc (Suc k))) env s
               = run_from (Suc (Suc (Suc k))) env ''doctor_intent_router'' s"
    by (simp add: invoke_def start_doctor[OF assms(1)] del: run_from.simps)
  consider (gen) "c = PStr ''supervisor_doctor_general''"
    | (sum) "c = PStr ''supervisor_summarization''"
    | (err) "c \<noteq> PStr ''supervisor_doctor_general''" "c \<noteq> PStr ''supervisor_summarization''"
    by blast
  then show ?thesis
  proof cases
    case gen
    with u doctor_router_answer[OF assms(2-4)]
    have "u = [(''supervisor_name'', PStr ''supervisor_doctor_general'')]" by simp
    then have nx: "next_node ''doctor_intent_router'' (apply_update s u)
                     = Some ''supervisor_doctor_general''"
      by (simp add: next_node_def apply_update_def AgentState_keys_def state_get_def)
    obtain t where "run_from (Suc (Suc k)) env ''supervisor_doctor_general'' (apply_update s u)
          = Finished t [] [''supervisor_doctor_general'', ''check_supervisor_handoff'']"
      using run_doctor_general by blast
    from run_from_step[OF _ ex nx this] gen show ?thesis
      by (simp add: inv del: run_from.simps)
  next
    case sum
    with u doctor_router_answer[OF assms(2-4)]
    have "u = [(''supervisor_name'', PStr ''supervisor_summarization'')]" by simp
    then have nx: "next_node ''doctor_intent_router'' (apply_update s u)
                     = Some ''supervisor_summarization''"
      by (simp add: next_node_def apply_update_def AgentState_keys_def state_get_def)
    obtain t where "run_from (Suc (Suc k)) env ''supervisor_summarization'' (apply_update s u)
          = Finished t [] [''supervisor_summarization'', ''check_supervisor_handoff'']"
      using run_summarization by blast
    from run_from_step[OF _ ex nx this] sum show ?thesis
      by (simp add: inv del: run_from.simps)
  next
    case err
    with u doctor_router_answer[OF assms(2-4)]
    have "map_of u ''supervisor_name'' = Some (PStr ''handle_error_node'')"
      by (auto split: if_splits)
    then have nx: "next_node ''doctor_intent_router'' (apply_update s u)
                     = Some ''handle_error_node''"
      by (simp add: next_node_def state_get_apply_update declared_keys)
    from run_from_step[OF _ ex nx run_handle_error] err show ?thesis
      by (simp add: inv del: run_from.simps)
  qed
qed

theorem doctor_router_dispatch_witness:
  "take 2 (path_of (invoke (Suc (Suc (Suc 0)))
      \<lparr>router_llm = (\<lambda>p q. Returned (PDict [(''supervisor'', PStr ''supervisor_summarization''),
                                            (''reasoning'', PStr ''asks for a summary'')])),
       patient_llm = (\<lambda>h q. InitFailed)\<rparr>
      \<lparr>messages = [\<lparr>msg_type = ''human'', is_human_message = True,
                     content = ''summarize these notes''\<rparr>],
       entries = [''user_role'' \<mapsto> PStr ''doctor'']\<rparr>))
     = [''doctor_intent_router'', ''supervisor_summarization'']"
  using doctor_router_dispatch
    [of "\<lparr>messages = [\<lparr>msg_type = ''human'', is_human_message = True,
                        content = ''summarize these notes''\<rparr>],
          entries = [''user_role'' \<mapsto> PStr ''doctor'']\<rparr>"
        "\<lparr>router_llm = (\<lambda>p q. Returned (PDict [(''supervisor'', PStr ''supervisor_summarization''),
                                            (''reasoning'', PStr ''asks for a summary'')])),
          patient_llm = (\<lambda>h q. InitFailed)\<rparr>"
        "[(''supervisor'', PStr ''supervisor_summarization''),
          (''reasoning'', PStr ''asks for a summary'')]"
        "PStr ''supervisor_summarization''" 0]
  by (simp add: latest_human_message_text_def dict_get_def del: run_from.simps)

text \<open>
  The claim as written fails for \<^verbatim>\<open>supervisor_image_analysis\<close>: a doctor's run whose
  classifier returns it gets the error update from the router and executes
  \<^verbatim>\<open>doctor_intent_router\<close>, then \<^verbatim>\<open>handle_error_node\<close>, never the image-analysis
  supervisor.
\<close>

theorem doctor_image_analysis_counterexample:
  "fst (doctor_intent_router
      \<lparr>router_llm = (\<lambda>p q. Returned (PDict [(''supervisor'', PStr ''supervisor_image_analysis''),
                                            (''reasoning'', PStr ''an image was uploaded'')])),
       patient_llm = (\<lambda>h q. InitFailed)\<rparr>
      \<lparr>messages = [\<lparr>msg_type = ''human'', is_human_message = True,
                     content = ''analyze this scan''\<rparr>],
       entries = [''user_role'' \<mapsto> PStr ''doctor'']\<rparr>)
     = [(''supervisor_name'', PStr ''handle_error_node''),
        (''route_error'',
         PStr (''Invalid routing target for role '' @ [CHR 0x27] @ ''doctor'' @ [CHR 0x27]
               @ '': supervisor_image_analysis''))]
   \<and> path_of (invoke (Suc (Suc (Suc 0)))
      \<lparr>router_llm = (\<lambda>p q. Returned (PDict [(''supervisor'', PStr ''supervisor_image_analysis''),
                                            (''reasoning'', PStr ''an image was uploaded'')])),
       patient_llm = (\<lambda>h q. InitFailed)\<rparr>
      \<lparr>messages = [\<lparr>msg_type = ''human'', is_human_message = True,
                     content = ''analyze this scan''\<rparr>],
       entries = [''user_role'' \<mapsto> PStr ''doctor'']\<rparr>)
     = [''doctor_intent_router'', ''handle_error_node'']"
  by (simp add: invoke_def next_node_def route_logic_by_role_def state_get_def exec_node_def
        doctor_intent_router_def determine_intent_llm_def latest_human_message_text_def
        dict_get_def apply_update_def AgentState_keys_def handle_error_node_def)


section \<open>Patient sub-workflow\<close>

lemma no_query_iff:
  "latest_human_text msgs = []
     \<longleftrightarrow> msgs = [] \<or> msg_type (last msgs) \<noteq> ''human'' \<or> content (last msgs) = []"
  by (auto simp add: latest_human_text_def)

lemma analyze_no_query:
  assumes "latest_human_text (messages s) = []"
  shows "analyze_patient_query llm s =
           ([(''patient_response_text'',
              PStr (''I'' @ [CHR 0x27] @ ''m sorry, I didnt quite catch that. could you please repeat your question?'')),
             (''request_scheduling'', PBool False)], [])"
  using assms by (simp add: analyze_patient_query_def)

lemma patient_terminal_finish:
  assumes "\<not> py_truthy (state_get s ''request_scheduling'' (PBool False))"
  shows "patient_terminal s = apply_update s (finish_conversation s)"
  using assms by (simp add: patient_terminal_def decide_next_step_def)

lemma patient_terminal_prepare:
  assumes "py_truthy (state_get s ''request_scheduling'' (PBool False))"
  shows "patient_terminal s = apply_update s (prepare_for_scheduling s)"
  using assms by (simp add: patient_terminal_def decide_next_step_def)

lemma analyze_writes:
  "\<exists>v. map_of (fst (analyze_patient_query llm s)) ''patient_response_text'' = Some v"
  "map_of (fst (analyze_patient_query llm s)) ''next_supervisor_required'' = None"
  by (auto simp add: analyze_patient_query_def Let_def
           split: llm_outcome.splits pyval.splits)

lemma analyze_flag_false:
  assumes "llm (render_history (butlast (messages s))) (latest_human_text (messages s)) = out"
      and "\<forall>kvs. out = Returned (PDict kvs) \<longrightarrow> map_of kvs ''reuqest_scheduling'' = None"
      and "out \<noteq> InitFailed"
  shows "map_of (fst (analyze_patient_query llm s)) ''request_scheduling'' = Some (PBool False)"
  using assms
  by (auto simp add: analyze_patient_query_def Let_def dict_get_def
           split: llm_outcome.splits pyval.splits)

lemma analyze_text_truthy:
  assumes "\<forall>kvs. llm (render_history (butlast (messages s))) (latest_human_text (messages s))
                  = Returned (PDict kvs)
             \<longrightarrow> py_truthy (dict_get kvs ''response_text''
                   (PStr (''I'' @ [CHR 0x27] @ ''m not sure how to respond to that'')))"
  shows "\<exists>v. map_of (fst (analyze_patient_query llm s)) ''patient_response_text'' = Some v
             \<and> py_truthy v"
  using assms
  by (auto simp add: analyze_patient_query_def Let_def
           split: llm_outcome.splits pyval.splits)

text \<open>
  C7. When the latest user message is missing (no message at all, or a last message
  that is not a human one) or empty, \<^verbatim>\<open>analyze_patient_query\<close> returns at once the
  fixed apology with \<^verbatim>\<open>request_scheduling = False\<close>; the collaborator is not consulted
  (no event), and the sub-workflow goes on through \<^verbatim>\<open>finish_conversation\<close> to a final
  state whose final output is that apology.
\<close>

theorem analyze_without_query:
  assumes "messages s = [] \<or> msg_type (last (messages s)) \<noteq> ''human''
           \<or> content (last (messages s)) = []"
  shows "let apology = PStr (''I'' @ [CHR 0x27] @ ''m sorry, I didnt quite catch that. could you please repeat your question?'');
             u = [(''patient_response_text'', apology), (''request_scheduling'', PBool False)]
         in analyze_patient_query (patient_llm env) s = (u, [])
          \<and> patient_supervisor_graph env s
              = (apply_update (apply_update s u) [(''final_output'', apology)], [])"
proof -
  let ?t = "PStr (''I'' @ [CHR 0x27] @ ''m sorry, I didnt quite catch that. could you please repeat your question?'')"
  let ?u = "[(''patient_response_text'', ?t), (''request_scheduling'', PBool False)]"
  from assms have q: "latest_human_text (messages s) = []" by (simp add: no_query_iff)
  have a: "analyze_patient_query (patient_llm env) s = (?u, [])"
    using analyze_no_query[OF q] by simp
  have "\<not> py_truthy (state_get (apply_update s ?u) ''request_scheduling'' (PBool False))"
    by (simp add: state_get_def apply_update_def AgentState_keys_def)
  from patient_terminal_finish[OF this]
  have "patient_terminal (apply_update s ?u)
          = apply_update (apply_update s ?u) [(''final_output'', ?t)]"
    by (simp add: finish_conversation_def state_get_def) (simp add: apply_update_def AgentState_keys_def)
  with a show ?thesis by (simp add: patient_supervisor_graph_def Let_def)
qed

theorem analyze_without_query_witness:
  "analyze_patient_query (\<lambda>h q. Returned (PDict [(''response_text'', PStr ''Hello'')]))
     \<lparr>messages = [\<lparr>msg_type = ''human'', is_human_message = True, content = []\<rparr>],
      entries = [''user_role'' \<mapsto> PStr ''patient'']\<rparr>
   = ([(''patient_response_text'',
        PStr (''I'' @ [CHR 0x27] @ ''m sorry, I didnt quite catch that. could you please repeat your question?'')),
       (''request_scheduling'', PBool False)], [])"
  using analyze_without_query
    [of "\<lparr>messages = [\<lparr>msg_type = ''human'', is_human_message = True, content = []\<rparr>],
          entries = [''user_role'' \<mapsto> PStr ''patient'']\<rparr>"
        "\<lparr>router_llm = (\<lambda>p q. InitFailed),
          patient_llm = (\<lambda>h q. Returned (PDict [(''response_text'', PStr ''Hello'')]))\<rparr>"]
  by (simp add: Let_def)

text \<open>
  C4, as the code has it. When the collaborator returns an answer that does not
  itself carry the key \<^verbatim>\<open>reuqest_scheduling\<close> (so every answer that keeps to the
  documented keys \<^verbatim>\<open>response_text\<close> and \<^verbatim>\<open>request_scheduling\<close>, whatever the value of
  the latter), the update of \<^verbatim>\<open>analyze_patient_query\<close> has
  \<^verbatim>\<open>request_scheduling = False\<close>, \<^verbatim>\<open>decide_next_step\<close> answers
  \<^verbatim>\<open>finish_conversation\<close>, and the sub-workflow ends through that node.
\<close>

theorem analyze_request_scheduling_false:
  assumes "patient_llm env (render_history (butlast (messages s))) (latest_human_text (messages s))
             = Returned resp"
      and "\<forall>kvs. resp = PDict kvs \<longrightarrow> map_of kvs ''reuqest_scheduling'' = None"
  shows "let u = fst (analyze_patient_query (patient_llm env) s) in
           map_of u ''request_scheduling'' = Some (PBool False)
         \<and> decide_next_step (apply_update s u) = ''finish_conversation''
         \<and> fst (patient_supervisor_graph env s)
             = apply_update (apply_update s u) (finish_conversation (apply_update s u))"
proof -
  let ?u = "fst (analyze_patient_query (patient_llm env) s)"
  have f: "map_of ?u ''request_scheduling'' = Some (PBool False)"
    by (rule analyze_flag_false[of "patient_llm env" s "Returned resp", OF assms(1)])
       (use assms(2) in auto)
  then have n: "\<not> py_truthy (state_get (apply_update s ?u) ''request_scheduling'' (PBool False))"
    by (simp add: state_get_apply_update declared_keys)
  then have d: "decide_next_step (apply_update s ?u) = ''finish_conversation''"
    by (simp add: decide_next_step_def)
  have "fst (patient_supervisor_graph env s) = patient_terminal (apply_update s ?u)"
    by (simp add: patient_supervisor_graph_def split: prod.splits)
  with f d patient_terminal_finish[OF n] show ?thesis by (simp add: Let_def)
qed

theorem analyze_request_scheduling_false_witness:
  "map_of (fst (analyze_patient_query
       (\<lambda>h q. Returned (PDict [(''response_text'', PStr ''Okay, I can help you with scheduling.''),
                              (''request_scheduling'', PBool True)]))
       \<lparr>messages = [\<lparr>msg_type = ''human'', is_human_message = True, content = ''I need to see a doctor''\<rparr>],
        entries = [''user_role'' \<mapsto> PStr ''patient'']\<rparr>)) ''request_scheduling''
     = Some (PBool False)
   \<and> decide_next_step
       (apply_update
          \<lparr>messages = [\<lparr>msg_type = ''human'', is_human_message = True, content = ''I need to see a doctor''\<rparr>],
           entries = [''user_role'' \<mapsto> PStr ''patient'']\<rparr>
          (fst (analyze_patient_query
             (\<lambda>h q. Returned (PDict [(''response_text'', PStr ''Okay, I can help you with scheduling.''),
                                    (''request_scheduling'', PBool True)]))
             \<lparr>messages = [\<lparr>msg_type = ''human'', is_human_message = True, content = ''I need to see a doctor''\<rparr>],
              entries = [''user_role'' \<mapsto> PStr ''patient'']\<rparr>)))
     = ''finish_conversation''"
  using analyze_request_scheduling_false
    [of "\<lparr>router_llm = (\<lambda>p q. InitFailed),
          patient_llm = (\<lambda>h q. Returned (PDict
             [(''response_text'', PStr ''Okay, I can help you with scheduling.''),
              (''request_scheduling'', PBool True)]))\<rparr>"
        "\<lparr>messages = [\<lparr>msg_type = ''human'', is_human_message = True, content = ''I need to see a doctor''\<rparr>],
          entries = [''user_role'' \<mapsto> PStr ''patient'']\<rparr>"
        "PDict [(''response_text'', PStr ''Okay, I can help you with scheduling.''),
                (''request_scheduling'', PBool True)]"]
  by (simp add: Let_def)

text \<open>
  The claim as written, for every answer of the collaborator, fails for an answer that
  carries the misspelled key itself: its value is copied into the update, and
  \<^verbatim>\<open>decide_next_step\<close> then answers \<^verbatim>\<open>prepare_for_scheduling\<close>.
\<close>

theorem analyze_misspelled_key_counterexample:
  "analyze_patient_query
     (\<lambda>h q. Returned (PDict [(''response_text'', PStr ''Okay, I can help you with scheduling.''),
                            (''reuqest_scheduling'', PBool True)]))
     \<lparr>messages = [\<lparr>msg_type = ''human'', is_human_message = True, content = ''I need to see a doctor''\<rparr>],
      entries = [''user_role'' \<mapsto> PStr ''patient'']\<rparr>
   = ([(''patient_response_text'', PStr ''Okay, I can help you with scheduling.''),
       (''request_scheduling'', PBool True)],
      [ConsultPatient [] ''I need to see a doctor''])
   \<and> decide_next_step
       (apply_update
          \<lparr>messages = [\<lparr>msg_type = ''human'', is_human_message = True, content = ''I need to see a doctor''\<rparr>],
           entries = [''user_role'' \<mapsto> PStr ''patient'']\<rparr>
          [(''patient_response_text'', PStr ''Okay, I can help you with scheduling.''),
           (''request_scheduling'', PBool True)])
     = ''prepare_for_scheduling''"
  by (simp add: analyze_patient_query_def latest_human_text_def
        render_history_def dict_get_def apply_update_def AgentState_keys_def decide_next_step_def state_get_def)

text \<open>
  C3, as the code has it. Let \<open>s1\<close> be the state at the decide step (the entry state
  with the update of \<^verbatim>\<open>analyze_patient_query\<close>) and \<open>t\<close> the terminal state of the
  sub-workflow. If \<^verbatim>\<open>request_scheduling\<close> is true in \<open>s1\<close>, then \<open>t\<close> has
  \<^verbatim>\<open>next_supervisor_required = "supervisor_scheduling"\<close>; if it is false, \<open>t\<close> has the
  \<^verbatim>\<open>next_supervisor_required\<close> the sub-workflow was entered with (none if there was
  none). In both cases the final output is the \<^verbatim>\<open>patient_response_text\<close> of \<open>s1\<close>,
  which the analyze step always writes; it is non-empty provided the collaborator, when
  it answers with a JSON object, gives a non-empty \<^verbatim>\<open>response_text\<close>.
\<close>

theorem patient_subworkflow_outcome:
  assumes "s1 = apply_update s0 (fst (analyze_patient_query (patient_llm env) s0))"
      and "t = fst (patient_supervisor_graph env s0)"
  shows "(py_truthy (state_get s1 ''request_scheduling'' (PBool False)) \<longrightarrow>
            entries t ''next_supervisor_required'' = Some (PStr ''supervisor_scheduling''))
       \<and> (\<not> py_truthy (state_get s1 ''request_scheduling'' (PBool False)) \<longrightarrow>
            entries t ''next_supervisor_required'' = entries s0 ''next_supervisor_required'')
       \<and> entries t ''final_output'' = entries s1 ''patient_response_text''
       \<and> entries s1 ''patient_response_text'' \<noteq> None
       \<and> ((\<forall>kvs. patient_llm env (render_history (butlast (messages s0)))
                      (latest_human_text (messages s0)) = Returned (PDict kvs)
                \<longrightarrow> py_truthy (dict_get kvs ''response_text''
                      (PStr (''I'' @ [CHR 0x27] @ ''m not sure how to respond to that''))))
            \<longrightarrow> (\<exists>v. entries t ''final_output'' = Some v \<and> py_truthy v))"
proof -
  let ?u = "fst (analyze_patient_query (patient_llm env) s0)"
  obtain v where v: "map_of ?u ''patient_response_text'' = Some v"
    using analyze_writes(1) by blast
  then have p: "entries s1 ''patient_response_text'' = Some v"
    by (simp add: assms(1) entries_apply_update declared_keys)
  have h: "entries s1 ''next_supervisor_required'' = entries s0 ''next_supervisor_required''"
    by (simp add: assms(1) entries_apply_update declared_keys analyze_writes(2))
  have t: "t = patient_terminal s1"
    by (simp add: assms patient_supervisor_graph_def split: prod.splits)
  have a: "py_truthy (state_get s1 ''request_scheduling'' (PBool False)) \<Longrightarrow>
            entries t ''next_supervisor_required'' = Some (PStr ''supervisor_scheduling'')
          \<and> entries t ''final_output'' = entries s1 ''patient_response_text''"
    by (simp add: t patient_terminal_prepare prepare_for_scheduling_def entries_apply_update
          declared_keys state_get_def p)
  have b: "\<not> py_truthy (state_get s1 ''request_scheduling'' (PBool False)) \<Longrightarrow>
            entries t ''next_supervisor_required'' = entries s0 ''next_supervisor_required''
          \<and> entries t ''final_output'' = entries s1 ''patient_response_text''"
    by (simp add: t patient_terminal_finish finish_conversation_def entries_apply_update
          declared_keys state_get_def p h)
  have c: "\<exists>w. entries t ''final_output'' = Some w \<and> py_truthy w"
    if "\<forall>kvs. patient_llm env (render_history (butlast (messages s0)))
                      (latest_human_text (messages s0)) = Returned (PDict kvs)
                \<longrightarrow> py_truthy (dict_get kvs ''response_text''
                      (PStr (''I'' @ [CHR 0x27] @ ''m not sure how to respond to that'')))"
  proof -
    from analyze_text_truthy[of "patient_llm env" s0, OF that] v have "py_truthy v" by auto
    with a b p show ?thesis
      by (cases "py_truthy (state_get s1 ''request_scheduling'' (PBool False))") auto
  qed
  from a b c p show ?thesis by blast
qed

theorem patient_subworkflow_outcome_witness:
  "entries (fst (patient_supervisor_graph
       \<lparr>router_llm = (\<lambda>p q. InitFailed),
        patient_llm = (\<lambda>h q. Returned (PDict
           [(''response_text'', PStr ''Okay, I can help you with scheduling.''),
            (''reuqest_scheduling'', PBool True)]))\<rparr>
       \<lparr>messages = [\<lparr>msg_type = ''human'', is_human_message = True, content = ''I need to see a doctor''\<rparr>],
        entries = [''user_role'' \<mapsto> PStr ''patient'']\<rparr>)) ''next_supervisor_required''
     = Some (PStr ''supervisor_scheduling'')
   \<and> entries (fst (patient_supervisor_graph
       \<lparr>router_llm = (\<lambda>p q. InitFailed),
        patient_llm = (\<lambda>h q. Returned (PDict
           [(''response_text'', PStr ''Okay, I can help you with scheduling.''),
            (''reuqest_scheduling'', PBool True)]))\<rparr>
       \<lparr>messages = [\<lparr>msg_type = ''human'', is_human_message = True, content = ''I need to see a doctor''\<rparr>],
        entries = [''user_role'' \<mapsto> PStr ''patient'']\<rparr>)) ''final_output''
     = Some (PStr ''Okay, I can help you with scheduling.'')"
  using patient_subworkflow_outcome
    [of "apply_update
           \<lparr>messages = [\<lparr>msg_type = ''human'', is_human_message = True, content = ''I need to see a doctor''\<rparr>],
            entries = [''user_role'' \<mapsto> PStr ''patient'']\<rparr>
           (fst (analyze_patient_query
              (patient_llm \<lparr>router_llm = (\<lambda>p q. InitFailed),
                 patient_llm = (\<lambda>h q. Returned (PDict
                   [(''response_text'', PStr ''Okay, I can help you with scheduling.''),
                    (''reuqest_scheduling'', PBool True)]))\<rparr>)
              \<lparr>messages = [\<lparr>msg_type = ''human'', is_human_message = True, content = ''I need to see a doctor''\<rparr>],
               entries = [''user_role'' \<mapsto> PStr ''patient'']\<rparr>))"
        "\<lparr>messages = [\<lparr>msg_type = ''human'', is_human_message = True, content = ''I need to see a doctor''\<rparr>],
          entries = [''user_role'' \<mapsto> PStr ''patient'']\<rparr>"
        "\<lparr>router_llm = (\<lambda>p q. InitFailed),
          patient_llm = (\<lambda>h q. Returned (PDict
            [(''response_text'', PStr ''Okay, I can help you with scheduling.''),
             (''reuqest_scheduling'', PBool True)]))\<rparr>"
        "fst (patient_supervisor_graph
           \<lparr>router_llm = (\<lambda>p q. InitFailed),
            patient_llm = (\<lambda>h q. Returned (PDict
              [(''response_text'', PStr ''Okay, I can help you with scheduling.''),
               (''reuqest_scheduling'', PBool True)]))\<rparr>
           \<lparr>messages = [\<lparr>msg_type = ''human'', is_human_message = True, content = ''I need to see a doctor''\<rparr>],
            entries = [''user_role'' \<mapsto> PStr ''patient'']\<rparr>)"]
  by (simp add: patient_supervisor_graph_def analyze_patient_query_def latest_human_text_def
        render_history_def dict_get_def apply_update_def AgentState_keys_def patient_terminal_def decide_next_step_def
        state_get_def prepare_for_scheduling_def)

text \<open>
  The claim as written promises a non-empty final output whenever
  \<^verbatim>\<open>request_scheduling\<close> is true at the decide step. An execution in which the
  collaborator answers with an empty \<^verbatim>\<open>response_text\<close> reaches the decide step with
  the flag true and ends with the empty string as final output.
\<close>

theorem patient_empty_output_counterexample:
  "entries (fst (patient_supervisor_graph
       \<lparr>router_llm = (\<lambda>p q. InitFailed),
        patient_llm = (\<lambda>h q. Returned (PDict [(''response_text'', PStr []),
                                              (''reuqest_scheduling'', PBool True)]))\<rparr>
       \<lparr>messages = [\<lparr>msg_type = ''human'', is_human_message = True, content = ''I need to see a doctor''\<rparr>],
        entries = [''user_role'' \<mapsto> PStr ''patient'']\<rparr>)) ''request_scheduling''
     = Some (PBool True)
   \<and> entries (fst (patient_supervisor_graph
       \<lparr>router_llm = (\<lambda>p q. InitFailed),
        patient_llm = (\<lambda>h q. Returned (PDict [(''response_text'', PStr []),
                                              (''reuqest_scheduling'', PBool True)]))\<rparr>
       \<lparr>messages = [\<lparr>msg_type = ''human'', is_human_message = True, content = ''I need to see a doctor''\<rparr>],
        entries = [''user_role'' \<mapsto> PStr ''patient'']\<rparr>)) ''final_output''
     = Some (PStr [])"
  by (simp add: patient_supervisor_graph_def analyze_patient_query_def latest_human_text_def
        render_history_def dict_get_def apply_update_def AgentState_keys_def patient_terminal_def decide_next_step_def
        state_get_def prepare_for_scheduling_def)


section \<open>Tool manager\<close>

lemma start_keeps_raw: "raw_server_configs (start_client connect m) = raw_server_configs m"
  by (simp add: start_client_def Let_def split: client_outcome.splits)

lemma stop_keeps_raw: "raw_server_configs (stop_client m) = raw_server_configs m"
  by (simp add: stop_client_def)

lemma lifecycle_keeps_raw: "raw_server_configs (lifecycle m cs) = raw_server_configs m"
proof (induction cs arbitrary: m)
  case Nil
  show ?case by simp
next
  case (Cons c cs)
  show ?case by (cases c) (simp_all add: Cons.IH start_keeps_raw stop_keeps_raw)
qed

lemma start_stays_stopped:
  assumes "filter server_active (raw_server_configs m) = []" and "\<not> running m"
  shows "\<not> running (start_client connect m)"
  using assms by (simp add: start_client_def)

lemma stop_stays_stopped: "\<not> running m \<Longrightarrow> \<not> running (stop_client m)"
  by (simp add: stop_client_def)

text \<open>
  With no active server in its configuration a manager never runs, whatever is
  called on it.
\<close>

lemma lifecycle_stays_stopped:
  assumes "filter server_active (raw_server_configs m) = []" and "\<not> running m"
  shows "\<not> running (lifecycle m cs)"
  using assms
proof (induction cs arbitrary: m)
  case Nil
  then show ?case by simp
next
  case (Cons c cs)
  show ?case
  proof (cases c)
    case (Start connect)
    with Cons.prems show ?thesis
      by (simp add: Cons.IH start_keeps_raw start_stays_stopped)
  next
    case Stop
    with Cons.prems show ?thesis
      by (simp add: Cons.IH stop_keeps_raw stop_stays_stopped)
  qed
qed

text \<open>
  C9. Take a manager built from a configuration with no active server (every server
  has a true \<^verbatim>\<open>disabled\<close> entry, or there is no server), after any earlier start and
  stop calls. \<^verbatim>\<open>start_client\<close> returns normally and leaves the manager stopped:
  \<^verbatim>\<open>is_running\<close> is false, there is no client, and the tool list is empty, also as
  \<^verbatim>\<open>get_all_tools\<close> and \<^verbatim>\<open>get_tools_for_agent\<close> report it.
\<close>

theorem start_without_active_servers:
  assumes "filter server_active server_configs = []"
      and "m = start_client connect (lifecycle (new_manager server_configs) calls)"
  shows "\<not> is_running m \<and> client m = None \<and> tools m = []
       \<and> fst (get_all_tools m) = [] \<and> fst (get_tools_for_agent m names) = []"
proof -
  let ?m0 = "lifecycle (new_manager server_configs) calls"
  have raw: "raw_server_configs ?m0 = server_configs"
    by (simp add: lifecycle_keeps_raw new_manager_def)
  have "\<not> running ?m0"
    by (rule lifecycle_stays_stopped) (simp_all add: new_manager_def assms(1))
  with raw assms show ?thesis
    by (simp add: start_client_def is_running_def get_all_tools_def get_tools_for_agent_def
          split: option.splits)
qed

theorem start_without_active_servers_witness:
  "\<not> is_running
       (start_client (\<lambda>active. Ready [\<lparr>tool_name = ''search'', tool_description = ''web search''\<rparr>])
          (lifecycle
             (new_manager [(''files'', [(''command'', PStr ''npx''), (''disabled'', PBool True)])])
             [Stop, Start (\<lambda>active. StartRaises)]))
   \<and> fst (get_all_tools
       (start_client (\<lambda>active. Ready [\<lparr>tool_name = ''search'', tool_description = ''web search''\<rparr>])
          (lifecycle
             (new_manager [(''files'', [(''command'', PStr ''npx''), (''disabled'', PBool True)])])
             [Stop, Start (\<lambda>active. StartRaises)]))) = []"
  using start_without_active_servers
    [of "[(''files'', [(''command'', PStr ''npx''), (''disabled'', PBool True)])]"
        "start_client (\<lambda>active. Ready [\<lparr>tool_name = ''search'', tool_description = ''web search''\<rparr>])
          (lifecycle
             (new_manager [(''files'', [(''command'', PStr ''npx''), (''disabled'', PBool True)])])
             [Stop, Start (\<lambda>active. StartRaises)])"
        "\<lambda>active. Ready [\<lparr>tool_name = ''search'', tool_description = ''web search''\<rparr>]"
        "[Stop, Start (\<lambda>active. StartRaises)]" None]
  by (simp add: server_active_def dict_get_def)






end
